theory Spec2Isabelle
  imports Main "HOL-Library.Word" "HOL-Library.Signed_Division"
begin

unbundle bit_operations_syntax

section \<open>Machine integers, bytes and errors\<close>

text \<open>
  Go's \<open>uint8\<close> and \<open>uint16\<close> are words. Go's \<open>int\<close> is taken as the 64-bit signed
  integer: a value is an \<open>int\<close> of HOL, and every addition and multiplication of the
  source is followed by the wrap-around into \<open>[-2^63, 2^63)\<close>. Go's \<open>/\<close> and \<open>%\<close>
  truncate towards zero: they are \<open>sdiv\<close> and \<open>smod\<close>, not HOL's flooring \<open>div\<close> and
  \<open>mod\<close>. A Go \<open>string\<close> is a sequence of bytes, and so is a HOL \<open>string\<close>.
\<close>

type_synonym byte = "8 word"
type_synonym uint16 = "16 word"

definition wrap64 :: "int \<Rightarrow> int" where
  "wrap64 i = signed_take_bit 63 i"

definition add64 :: "int \<Rightarrow> int \<Rightarrow> int" where
  "add64 a b = wrap64 (a + b)"

definition mul64 :: "int \<Rightarrow> int \<Rightarrow> int" where
  "mul64 a b = wrap64 (a * b)"

definition quo64 :: "int \<Rightarrow> int \<Rightarrow> int" where
  "quo64 a b = wrap64 (a sdiv b)"

definition rem64 :: "int \<Rightarrow> int \<Rightarrow> int" where
  "rem64 a b = a smod b"

text \<open>
  Every error return and every run-time panic of the source is a value of \<open>error\<close>.
  \<open>EOF\<close> and \<open>ErrUnexpectedEOF\<close> are the two errors of \<open>io.ReadFull\<close>,
  \<open>UnsupportedVersion\<close> is the error built by \<open>fmt.Errorf\<close> in \<open>DecodeMapBlock\<close>,
  \<open>CorruptData\<close> stands for whatever the decompressor reports, \<open>BackendError\<close> for
  whatever the persistence backend reports, and \<open>IndexOutOfRange\<close> is the panic of an
  array or slice access outside its bounds.
\<close>

datatype error =
    EOF
  | ErrUnexpectedEOF
  | UnsupportedVersion byte
  | CorruptData
  | BackendError
  | IndexOutOfRange int

definition string_of_bytes :: "byte list \<Rightarrow> string" where
  "string_of_bytes buf = map (\<lambda>b. char_of (unat b)) buf"

definition index_slice :: "'a list \<Rightarrow> int \<Rightarrow> error + 'a" where
  "index_slice xs i =
     (if 0 \<le> i \<and> i < int (length xs) then Inr (xs ! nat i) else Inl (IndexOutOfRange i))"


section \<open>The block codec\<close>

definition MapBlockSize :: int where
  "MapBlockSize = 16"

definition MapBlockVolume :: int where
  "MapBlockVolume = MapBlockSize * MapBlockSize * MapBlockSize"

definition NodeSizeInBytes :: int where
  "NodeSizeInBytes = 4"

record Node =
  ID :: uint16
  Param1 :: byte
  Param2 :: byte

subsection \<open>Reading from a byte reader\<close>

text \<open>
  A \<open>bytes.Reader\<close> is modelled by the bytes it has not read yet. \<open>io.ReadFull\<close> into a
  buffer of \<open>n\<close> bytes returns them when the reader has that many, \<open>EOF\<close> when the reader
  is empty and \<open>ErrUnexpectedEOF\<close> when it is short; a buffer of length 0 is always
  filled. \<open>binary.Read\<close> of a fixed-size integer is \<open>io.ReadFull\<close> of its bytes.
\<close>

type_synonym reader = "byte list"

definition ReadFull :: "nat \<Rightarrow> reader \<Rightarrow> error + (byte list \<times> reader)" where
  "ReadFull n r =
     (if n \<le> length r then Inr (take n r, drop n r)
      else if r = [] then Inl EOF
      else Inl ErrUnexpectedEOF)"

text \<open>
  \<open>Seek(n, io.SeekCurrent)\<close> of a \<open>bytes.Reader\<close> fails only when the new position is
  negative. It may move beyond the end of the data: the next read then meets \<open>EOF\<close>, as it
  does on the empty remainder.
\<close>

definition Seek :: "nat \<Rightarrow> reader \<Rightarrow> error + reader" where
  "Seek n r = Inr (drop n r)"

definition readU8 :: "reader \<Rightarrow> error + (byte \<times> reader)" where
  "readU8 r =
     (case ReadFull 1 r of
        Inl err \<Rightarrow> Inl err
      | Inr (bs, r') \<Rightarrow> Inr (bs ! 0, r'))"

definition readU16 :: "reader \<Rightarrow> error + (uint16 \<times> reader)" where
  "readU16 r =
     (case ReadFull 2 r of
        Inl err \<Rightarrow> Inl err
      | Inr (bs, r') \<Rightarrow> Inr (push_bit 8 (ucast (bs ! 0)) OR ucast (bs ! 1), r'))"

definition readString :: "reader \<Rightarrow> error + (string \<times> reader)" where
  "readString r =
     (case readU16 r of
        Inl err \<Rightarrow> Inl err
      | Inr (len, r') \<Rightarrow>
          (case ReadFull (unat len) r' of
             Inl err \<Rightarrow> Inl err
           | Inr (buf, r'') \<Rightarrow> Inr (string_of_bytes buf, r'')))"

subsection \<open>Decoding a block\<close>

record MapBlock =
  mappings :: "uint16 \<rightharpoonup> string"
  nodeData :: "byte list"

text \<open>
  The loop of \<open>DecodeMapBlock\<close> that reads the mapping table; the first argument counts
  the iterations that are left, \<open>int(mappingCount) - i\<close>.
\<close>

fun readMappings ::
  "nat \<Rightarrow> reader \<Rightarrow> (uint16 \<rightharpoonup> string) \<Rightarrow> error + ((uint16 \<rightharpoonup> string) \<times> reader)" where
  "readMappings 0 r m = Inr (m, r)"
| "readMappings (Suc n) r m =
     (case readU16 r of
        Inl err \<Rightarrow> Inl err
      | Inr (id', r1) \<Rightarrow>
          (case readString r1 of
             Inl err \<Rightarrow> Inl err
           | Inr (name, r2) \<Rightarrow> readMappings n r2 (m(id' \<mapsto> name))))"

text \<open>
  The decompressor is a library: \<open>zstd\<close> is what \<open>zstd.NewReader\<close> followed by
  \<open>io.ReadAll\<close> makes of the bytes behind the version byte.
\<close>

type_synonym decompressor = "byte list \<Rightarrow> error + byte list"

definition DecodeMapBlock :: "decompressor \<Rightarrow> byte list \<Rightarrow> error + MapBlock" where
  "DecodeMapBlock zstd data =
     (case readU8 data of
        Inl err \<Rightarrow> Inl err
      | Inr (version, reader) \<Rightarrow>
          if version \<noteq> 29 then Inl (UnsupportedVersion version)
          else
            (case zstd reader of
               Inl err \<Rightarrow> Inl err
             | Inr data' \<Rightarrow>
                 (case Seek (1 + 2 + 4 + 1) data' of
                    Inl err \<Rightarrow> Inl err
                  | Inr reader1 \<Rightarrow>
                      (case readU16 reader1 of
                         Inl err \<Rightarrow> Inl err
                       | Inr (mappingCount, reader2) \<Rightarrow>
                           (case readMappings (unat mappingCount) reader2 Map.empty of
                              Inl err \<Rightarrow> Inl err
                            | Inr (mappings', reader3) \<Rightarrow>
                                (case Seek (1 + 1) reader3 of
                                   Inl err \<Rightarrow> Inl err
                                 | Inr reader4 \<Rightarrow>
                                     (case ReadFull (nat (MapBlockVolume * NodeSizeInBytes)) reader4 of
                                        Inl err \<Rightarrow> Inl err
                                      | Inr (nodeData', reader5) \<Rightarrow>
                                          Inr \<lparr>mappings = mappings', nodeData = nodeData'\<rparr>)))))))"

text \<open>A Go map yields the zero value, the empty string, at a key it does not hold.\<close>

definition ResolveName :: "MapBlock \<Rightarrow> uint16 \<Rightarrow> string" where
  "ResolveName b id' = (case mappings b id' of None \<Rightarrow> [] | Some name \<Rightarrow> name)"

definition MapBlock_GetNode :: "MapBlock \<Rightarrow> int \<Rightarrow> int \<Rightarrow> int \<Rightarrow> error + Node" where
  "MapBlock_GetNode b x y z =
     (let index = add64 (add64 (mul64 (mul64 z MapBlockSize) MapBlockSize) (mul64 y MapBlockSize)) x
      in case index_slice (nodeData b) (mul64 2 index) of
           Inl err \<Rightarrow> Inl err
         | Inr idHi \<Rightarrow>
             (case index_slice (nodeData b) (add64 (mul64 2 index) 1) of
                Inl err \<Rightarrow> Inl err
              | Inr idLo \<Rightarrow>
                  (case index_slice (nodeData b) (add64 (2 * MapBlockVolume) index) of
                     Inl err \<Rightarrow> Inl err
                   | Inr param1 \<Rightarrow>
                       (case index_slice (nodeData b) (add64 (3 * MapBlockVolume) index) of
                          Inl err \<Rightarrow> Inl err
                        | Inr param2 \<Rightarrow>
                            Inr \<lparr>ID = push_bit 8 (ucast idHi) OR ucast idLo,
                                 Param1 = param1, Param2 = param2\<rparr>))))"

subsection \<open>The world accessor\<close>

text \<open>
  The backend is an interface: \<open>GetBlockData\<close> is a function from the three block
  coordinates to the stored bytes or an error.
\<close>

type_synonym Backend = "int \<Rightarrow> int \<Rightarrow> int \<Rightarrow> error + byte list"

record World =
  backend :: Backend

definition GetBlock :: "decompressor \<Rightarrow> World \<Rightarrow> int \<Rightarrow> int \<Rightarrow> int \<Rightarrow> error + MapBlock" where
  "GetBlock zstd w x y z =
     (case backend w x y z of
        Inl err \<Rightarrow> Inl err
      | Inr data \<Rightarrow>
          (case DecodeMapBlock zstd data of
             Inl err \<Rightarrow> Inl err
           | Inr block \<Rightarrow> Inr block))"


section \<open>The block neighborhood\<close>

text \<open>
  Modelled from the spec: the package \<open>spatial\<close> is not among the sources. Its
  \<open>BlockPos\<close> and \<open>NodePos\<close> are integer 3-D coordinates with the fields \<open>X\<close>, \<open>Y\<close>
  and \<open>Z\<close>; one record stands for both.
\<close>

record Pos =
  X :: int
  Y :: int
  Z :: int

type_synonym BlockPos = Pos
type_synonym NodePos = Pos

text \<open>
  Modelled from the spec: the constant \<open>spatial.BlockSize\<close> is not among the sources;
  the block edge length is fixed at 16, as \<open>MapBlockSize\<close> is.
\<close>

definition BlockSize :: int where
  "BlockSize = 16"

text \<open>
  Modelled from the spec: the method \<open>BlockPos.Add\<close> is not among the sources; the
  arithmetic of block positions is the component-wise addition.
\<close>

definition Add :: "BlockPos \<Rightarrow> BlockPos \<Rightarrow> BlockPos" where
  "Add p q = \<lparr>X = add64 (X p) (X q), Y = add64 (Y p) (Y q), Z = add64 (Z p) (Z q)\<rparr>"

text \<open>
  The array \<open>[27]*world.MapBlock\<close> is a list of 27 optional blocks, \<open>None\<close> for the nil
  pointer; an index outside \<open>0..26\<close> panics.
\<close>

record BlockNeighborhood =
  blocks :: "MapBlock option list"

text \<open>The zero value of the struct: 27 nil pointers.\<close>

definition emptyNeighborhood :: BlockNeighborhood where
  "emptyNeighborhood = \<lparr>blocks = replicate 27 None\<rparr>"

definition neighborhoodCenter :: BlockPos where
  "neighborhoodCenter = \<lparr>X = 1, Y = 1, Z = 1\<rparr>"

definition SetBlock ::
  "BlockNeighborhood \<Rightarrow> BlockPos \<Rightarrow> MapBlock option \<Rightarrow> error + BlockNeighborhood" where
  "SetBlock b pos block =
     (let i = add64 (add64 (mul64 (X pos) 9) (mul64 (Y pos) 3)) (Z pos)
      in if 0 \<le> i \<and> i < 27 then Inr (b\<lparr>blocks := (blocks b)[nat i := block]\<rparr>)
         else Inl (IndexOutOfRange i))"

text \<open>
  \<open>FetchBlock\<close> asks the world for the block at \<open>worldPos + posOffset\<close>. The methods
  \<open>World.GetBlock\<close> and \<open>MapBlock.GetNode\<close> of the sources take the three coordinates
  one by one, so the calls of the neighborhood pass the fields of the position.
\<close>

definition FetchBlock ::
  "decompressor \<Rightarrow> World \<Rightarrow> BlockNeighborhood \<Rightarrow> BlockPos \<Rightarrow> BlockPos \<Rightarrow> error + BlockNeighborhood" where
  "FetchBlock zstd w b posOffset worldPos =
     (let p = Add worldPos posOffset
      in case GetBlock zstd w (X p) (Y p) (Z p) of
           Inl err \<Rightarrow> Inr b
         | Inr block \<Rightarrow> SetBlock b (Add neighborhoodCenter posOffset) (Some block))"

definition getBlockByNodePos :: "BlockNeighborhood \<Rightarrow> NodePos \<Rightarrow> error + MapBlock option" where
  "getBlockByNodePos b pos =
     (let bx = add64 (quo64 (X pos) BlockSize) (X neighborhoodCenter);
          by = add64 (quo64 (Y pos) BlockSize) (Y neighborhoodCenter);
          bz = add64 (quo64 (Z pos) BlockSize) (Z neighborhoodCenter);
          i = add64 (add64 (mul64 bz 9) (mul64 by 3)) bx
      in if 0 \<le> i \<and> i < 27 then Inr (blocks b ! nat i) else Inl (IndexOutOfRange i))"

definition GetNode :: "BlockNeighborhood \<Rightarrow> NodePos \<Rightarrow> error + (string \<times> byte \<times> byte)" where
  "GetNode b pos =
     (case getBlockByNodePos b pos of
        Inl err \<Rightarrow> Inl err
      | Inr None \<Rightarrow> Inr (''air'', 0, 0)
      | Inr (Some block) \<Rightarrow>
          (case MapBlock_GetNode block
                  (rem64 (X pos) BlockSize) (rem64 (Y pos) BlockSize) (rem64 (Z pos) BlockSize) of
             Inl err \<Rightarrow> Inl err
           | Inr node \<Rightarrow> Inr (ResolveName block (ID node), Param1 node, Param2 node)))"

definition GetParam1 :: "BlockNeighborhood \<Rightarrow> NodePos \<Rightarrow> error + byte" where
  "GetParam1 b pos =
     (case getBlockByNodePos b pos of
        Inl err \<Rightarrow> Inl err
      | Inr None \<Rightarrow> Inr 0
      | Inr (Some block) \<Rightarrow>
          (case MapBlock_GetNode block
                  (rem64 (X pos) BlockSize) (rem64 (Y pos) BlockSize) (rem64 (Z pos) BlockSize) of
             Inl err \<Rightarrow> Inl err
           | Inr node \<Rightarrow> Inr (Param1 node)))"


section \<open>The layout in the words of the specification, and the wire format\<close>

text \<open>
  The node array as the specification words it: four planes of 4096 bytes each, the ID
  high bytes, the ID low bytes, the param1 bytes and the param2 bytes. This accessor is
  not part of the sources; it is compared with \<open>MapBlock_GetNode\<close>.
\<close>

definition GetNode_spec_planes :: "MapBlock \<Rightarrow> int \<Rightarrow> int \<Rightarrow> int \<Rightarrow> error + Node" where
  "GetNode_spec_planes b x y z =
     (let index = z * MapBlockSize * MapBlockSize + y * MapBlockSize + x
      in case index_slice (nodeData b) index of
           Inl err \<Rightarrow> Inl err
         | Inr idHi \<Rightarrow>
             (case index_slice (nodeData b) (MapBlockVolume + index) of
                Inl err \<Rightarrow> Inl err
              | Inr idLo \<Rightarrow>
                  (case index_slice (nodeData b) (2 * MapBlockVolume + index) of
                     Inl err \<Rightarrow> Inl err
                   | Inr param1 \<Rightarrow>
                       (case index_slice (nodeData b) (3 * MapBlockVolume + index) of
                          Inl err \<Rightarrow> Inl err
                        | Inr param2 \<Rightarrow>
                            Inr \<lparr>ID = push_bit 8 (ucast idHi) OR ucast idLo,
                                 Param1 = param1, Param2 = param2\<rparr>))))"

text \<open>
  The writers of the wire format, inverse to the readers above: a big-endian 16-bit
  integer, a string behind its 16-bit length, and one entry of the mapping table (the
  numeric ID, then the name). The sources hold no encoder; the theorems on decoding speak
  about the bytes these writers produce.
\<close>

definition putU16 :: "uint16 \<Rightarrow> byte list" where
  "putU16 v = [ucast (drop_bit 8 v), ucast v]"

definition bytes_of_string :: "string \<Rightarrow> byte list" where
  "bytes_of_string s = map (\<lambda>c. of_nat (of_char c)) s"

definition putString :: "string \<Rightarrow> byte list" where
  "putString s = putU16 (of_nat (length s)) @ bytes_of_string s"

definition putMapping :: "uint16 \<times> string \<Rightarrow> byte list" where
  "putMapping e = putU16 (fst e) @ putString (snd e)"

text \<open>
  The node array that \<open>MapBlock_GetNode\<close> reads: the 16-bit IDs of all nodes one after
  the other, each as its high byte and its low byte, then the param1 bytes of all nodes,
  then their param2 bytes.
\<close>

definition encodeNodes :: "Node list \<Rightarrow> byte list" where
  "encodeNodes ns = concat (map (\<lambda>n. putU16 (ID n)) ns) @ map Param1 ns @ map Param2 ns"

subsection \<open>Sample data\<close>

text \<open>
  A decompressed payload with a mapping table of two entries for the ID 5, named
  \<open>a\<close> and then \<open>b\<close>, and a payload with an empty table; both with 16384 zero bytes
  of node data.
\<close>

definition samplePayload :: "byte list" where
  "samplePayload =
     replicate 8 0 @ [0, 2] @ [0, 5, 0, 1, 97] @ [0, 5, 0, 1, 98] @ [0, 0] @ replicate 16384 0"

definition emptyPayload :: "byte list" where
  "emptyPayload = replicate 8 0 @ [0, 0] @ [0, 0] @ replicate 16384 0"

text \<open>
  A world whose backend holds a block of version 29 at the origin and blocks of
  version 28 in the plane \<open>x = 1\<close>, and fails everywhere else.
\<close>

definition sampleWorld :: World where
  "sampleWorld = \<lparr>backend = (\<lambda>x y z.
      if x = 0 \<and> y = 0 \<and> z = 0 then Inr [29]
      else if x = 1 then Inr [28]
      else Inl BackendError)\<rparr>"


section \<open>Auxiliary facts\<close>

subsection \<open>Arithmetic without overflow\<close>

lemma wrap64_id: "- (2 ^ 63) \<le> i \<Longrightarrow> i < 2 ^ 63 \<Longrightarrow> wrap64 i = i"
  by (simp add: wrap64_def signed_take_bit_int_eq_self)

lemmas int64_simps = add64_def mul64_def quo64_def rem64_def wrap64_id
  signed_divide_int_def signed_modulo_int_def

lemma flat_index_wrap:
  assumes "0 \<le> x" "x < 16" "0 \<le> y" "y < 16" "0 \<le> z" "z < 16"
  shows "add64 (add64 (mul64 (mul64 z MapBlockSize) MapBlockSize) (mul64 y MapBlockSize)) x
         = z * 256 + y * 16 + x"
proof -
  have 1: "mul64 z MapBlockSize = z * 16"
    using assms by (simp add: mul64_def MapBlockSize_def wrap64_id)
  have 2: "mul64 (z * 16) MapBlockSize = z * 256"
    using assms by (simp add: mul64_def MapBlockSize_def wrap64_id)
  have 3: "mul64 y MapBlockSize = y * 16"
    using assms by (simp add: mul64_def MapBlockSize_def wrap64_id)
  have 4: "add64 (z * 256) (y * 16) = z * 256 + y * 16"
    using assms by (simp add: add64_def wrap64_id)
  have 5: "add64 (z * 256 + y * 16) x = z * 256 + y * 16 + x"
    using assms by (simp add: add64_def wrap64_id)
  show ?thesis by (simp only: 1 2 3 4 5)
qed

subsection \<open>Reading a node at a flat index\<close>

lemma MapBlock_GetNode_flat:
  assumes len: "length (nodeData b) = 16384" and i: "0 \<le> i" "i < 4096"
    and idx: "add64 (add64 (mul64 (mul64 z MapBlockSize) MapBlockSize) (mul64 y MapBlockSize)) x = i"
  shows "MapBlock_GetNode b x y z =
     Inr \<lparr>ID = push_bit 8 (ucast (nodeData b ! nat (2 * i))) OR ucast (nodeData b ! nat (2 * i + 1)),
          Param1 = nodeData b ! nat (2 * 4096 + i),
          Param2 = nodeData b ! nat (3 * 4096 + i)\<rparr>"
proof -
  have a: "mul64 2 i = 2 * i" using i by (simp add: mul64_def wrap64_id)
  have b: "add64 (2 * i) 1 = 2 * i + 1" using i by (simp add: add64_def wrap64_id)
  have c: "add64 (2 * MapBlockVolume) i = 2 * 4096 + i"
    using i by (simp add: add64_def wrap64_id MapBlockVolume_def MapBlockSize_def)
  have d: "add64 (3 * MapBlockVolume) i = 3 * 4096 + i"
    using i by (simp add: add64_def wrap64_id MapBlockVolume_def MapBlockSize_def)
  show ?thesis
    unfolding MapBlock_GetNode_def idx Let_def a b c d
    using len i by (simp add: index_slice_def)
qed

subsection \<open>Readers undo writers\<close>

lemma cat_hi_lo:
  "push_bit 8 (ucast (ucast (drop_bit 8 v) :: byte)) OR ucast (ucast v :: byte) = (v :: uint16)"
  by (rule bit_word_eqI) (auto simp add: bit_simps)

lemma readU16_putU16: "readU16 (putU16 v @ r) = Inr (v, r)"
  by (simp add: readU16_def putU16_def ReadFull_def cat_hi_lo)

lemma string_of_bytes_of_string: "string_of_bytes (bytes_of_string s) = s"
  by (induction s) (simp_all add: string_of_bytes_def bytes_of_string_def unat_of_nat)

lemma length_bytes_of_string: "length (bytes_of_string s) = length s"
  by (simp add: bytes_of_string_def)

lemma readString_putString:
  "length s < 65536 \<Longrightarrow> readString (putString s @ r) = Inr (s, r)"
  by (simp add: readString_def putString_def readU16_putU16 ReadFull_def unat_of_nat
      length_bytes_of_string string_of_bytes_of_string)

text \<open>
  The loop over a written table leaves the map of its entries, a later entry overriding
  an earlier one of the same ID.
\<close>

lemma readMappings_put:
  "\<forall>e \<in> set es. length (snd e) < 65536 \<Longrightarrow>
   readMappings (length es) (concat (map putMapping es) @ r) m = Inr (m ++ map_of (rev es), r)"
proof (induction es arbitrary: m)
  case Nil
  then show ?case by simp
next
  case (Cons e es)
  obtain k n where e: "e = (k, n)" by (cases e)
  from Cons.prems e have n: "length n < 65536" by simp
  have "readMappings (length (e # es)) (concat (map putMapping (e # es)) @ r) m
        = readMappings (length es) (concat (map putMapping es) @ r) (m(k \<mapsto> n))"
    using n by (simp add: e putMapping_def readU16_putU16 readString_putString)
  also have "\<dots> = Inr (m(k \<mapsto> n) ++ map_of (rev es), r)"
    using Cons.prems by (intro Cons.IH) simp
  also have "m(k \<mapsto> n) ++ map_of (rev es) = m ++ map_of (rev (e # es))"
    by (simp add: e map_add_assoc[symmetric] map_add_upd_left)
  finally show ?case .
qed

lemma map_of_rev_last:
  "k \<notin> fst ` set post \<Longrightarrow> map_of (rev (pre @ (k, n1) # mid @ (k, n2) # post)) k = Some n2"
  by (simp add: map_add_Some_iff map_of_eq_None_iff)

lemma DecodeMapBlock_encoded:
  assumes "zstd rest =
      Inr (hdr @ putU16 (of_nat (length es)) @ concat (map putMapping es) @ skip @ nd @ trailing)"
    and "length hdr = 8" and "length skip = 2" and "length nd = 16384"
    and "length es < 65536" and "\<forall>e \<in> set es. length (snd e) < 65536"
  shows "DecodeMapBlock zstd (29 # rest) = Inr \<lparr>mappings = map_of (rev es), nodeData = nd\<rparr>"
  using assms
  by (simp add: DecodeMapBlock_def readU8_def ReadFull_def Seek_def readU16_putU16 unat_of_nat
      readMappings_put MapBlockVolume_def MapBlockSize_def NodeSizeInBytes_def)

lemma DecodeMapBlock_length:
  "DecodeMapBlock zstd data = Inr b \<Longrightarrow> length (nodeData b) = 16384"
  by (auto simp add: DecodeMapBlock_def ReadFull_def MapBlockVolume_def MapBlockSize_def
      NodeSizeInBytes_def split: sum.splits if_splits prod.splits)

lemma samplePayload_put:
  "samplePayload =
    replicate 8 0 @ putU16 (of_nat (length [(5::uint16, ''a''), (5, ''b'')])) @
    concat (map putMapping [(5, ''a''), (5, ''b'')]) @ [0, 0] @ replicate 16384 0 @ []"
  by (simp add: samplePayload_def putU16_def putMapping_def putString_def bytes_of_string_def)

lemma decode_emptyPayload:
  "DecodeMapBlock (\<lambda>r. Inr emptyPayload) [29] =
     Inr \<lparr>mappings = Map.empty, nodeData = replicate 16384 0\<rparr>"
  using DecodeMapBlock_encoded [where zstd = "\<lambda>r. Inr emptyPayload" and rest = "[]"
      and hdr = "replicate 8 0" and es = "[]" and skip = "[0, 0]" and nd = "replicate 16384 0"
      and trailing = "[]"]
  by (simp add: emptyPayload_def putU16_def)

subsection \<open>The bytes of an encoded node array\<close>

lemma length_ids: "length (concat (map (\<lambda>n. putU16 (ID n)) ns)) = 2 * length ns"
  by (induction ns) (simp_all add: putU16_def)

lemma ids_nth:
  "i < length ns \<Longrightarrow>
   concat (map (\<lambda>n. putU16 (ID n)) ns) ! (2 * i) = ucast (drop_bit 8 (ID (ns ! i))) \<and>
   concat (map (\<lambda>n. putU16 (ID n)) ns) ! (2 * i + 1) = ucast (ID (ns ! i))"
proof (induction ns arbitrary: i)
  case Nil
  then show ?case by simp
next
  case (Cons n ns)
  then show ?case by (cases i) (simp_all add: putU16_def)
qed

lemma encodeNodes_nth:
  assumes "i < length ns"
  shows "encodeNodes ns ! (2 * i) = ucast (drop_bit 8 (ID (ns ! i)))"
    and "encodeNodes ns ! (2 * i + 1) = ucast (ID (ns ! i))"
    and "encodeNodes ns ! (2 * length ns + i) = Param1 (ns ! i)"
    and "encodeNodes ns ! (3 * length ns + i) = Param2 (ns ! i)"
  using assms ids_nth [of i ns]
  by (simp_all add: encodeNodes_def nth_append length_ids)

lemma length_encodeNodes: "length (encodeNodes ns) = 4 * length ns"
  by (simp add: encodeNodes_def length_ids)


section \<open>Resolving a node position to a cell of the neighborhood\<close>

text \<open>
  C1: the claim asks that the node position \<open>(-1, 5, 5)\<close> resolves into the neighbor cell
  at the relative offset \<open>(-1, 0, 0)\<close> with the local position \<open>(15, 5, 5)\<close>. The code
  divides and takes remainders with Go's truncating operators: \<open>-1 / 16\<close> is 0 and
  \<open>-1 % 16\<close> is \<open>-1\<close>. So the position resolves to cell 13, the cell that the center
  position \<open>(5, 5, 5)\<close> resolves to, with the local X coordinate \<open>-1\<close>; in a neighborhood
  that holds the center block only, the answer is a node of the center block and not the
  sentinel of the absent neighbor.
\<close>

theorem C1_negative_position_resolves_to_center:
  "getBlockByNodePos b \<lparr>X = - 1, Y = 5, Z = 5\<rparr> = Inr (blocks b ! 13) \<and>
   getBlockByNodePos b \<lparr>X = 5, Y = 5, Z = 5\<rparr> = Inr (blocks b ! 13) \<and>
   rem64 (- 1) BlockSize = - 1 \<and>
   (\<exists>nb. SetBlock emptyNeighborhood neighborhoodCenter
            (Some \<lparr>mappings = [0 \<mapsto> ''center''], nodeData = replicate 16384 0\<rparr>) = Inr nb \<and>
         GetNode nb \<lparr>X = - 1, Y = 5, Z = 5\<rparr> = Inr (''center'', 0, 0))"
proof -
  let ?B = "\<lparr>mappings = [0 \<mapsto> ''center''], nodeData = replicate 16384 0\<rparr>"
  have cell: "getBlockByNodePos b \<lparr>X = - 1, Y = 5, Z = 5\<rparr> = Inr (blocks b ! 13)"
    "getBlockByNodePos b \<lparr>X = 5, Y = 5, Z = 5\<rparr> = Inr (blocks b ! 13)"
    "rem64 (- 1) BlockSize = - 1"
    by (simp_all add: getBlockByNodePos_def BlockSize_def neighborhoodCenter_def int64_simps)
  have idx: "add64 (add64 (mul64 (mul64 5 MapBlockSize) MapBlockSize) (mul64 5 MapBlockSize)) (- 1)
      = 1359"
    by (simp add: MapBlockSize_def int64_simps)
  have g: "MapBlock_GetNode ?B (- 1) 5 5 = Inr \<lparr>ID = 0, Param1 = 0, Param2 = 0\<rparr>"
    using MapBlock_GetNode_flat [of ?B 1359 5 5 "- 1"] idx by simp
  have nb: "\<exists>nb. SetBlock emptyNeighborhood neighborhoodCenter (Some ?B) = Inr nb \<and>
         GetNode nb \<lparr>X = - 1, Y = 5, Z = 5\<rparr> = Inr (''center'', 0, 0)"
    by (simp add: SetBlock_def emptyNeighborhood_def neighborhoodCenter_def GetNode_def
        getBlockByNodePos_def BlockSize_def int64_simps g ResolveName_def)
  show ?thesis using cell nb by (intro conjI)
qed

text \<open>
  C2: the claim asks that the cell which \<open>SetBlock\<close> writes for an offset is the cell
  which \<open>getBlockByNodePos\<close> reads for the node positions of that offset. \<open>SetBlock\<close>
  computes the index \<open>X * 9 + Y * 3 + Z\<close> and \<open>getBlockByNodePos\<close> the index
  \<open>Z * 9 + Y * 3 + X\<close>. A block stored for the offset \<open>(1, 0, 0)\<close> in the empty
  neighborhood goes to cell 22; the node position \<open>(16, 0, 0)\<close> of that offset reads
  cell 14, which is empty, and \<open>GetNode\<close> answers with the sentinel.
\<close>

theorem C2_SetBlock_and_lookup_disagree:
  "\<exists>nb. SetBlock emptyNeighborhood (Add neighborhoodCenter \<lparr>X = 1, Y = 0, Z = 0\<rparr>) (Some B) = Inr nb \<and>
        blocks nb ! 22 = Some B \<and>
        getBlockByNodePos nb \<lparr>X = 16, Y = 0, Z = 0\<rparr> = Inr (blocks nb ! 14) \<and>
        getBlockByNodePos nb \<lparr>X = 16, Y = 0, Z = 0\<rparr> = Inr None \<and>
        GetNode nb \<lparr>X = 16, Y = 0, Z = 0\<rparr> = Inr (''air'', 0, 0)"
  by (simp add: SetBlock_def emptyNeighborhood_def neighborhoodCenter_def Add_def GetNode_def
      getBlockByNodePos_def BlockSize_def int64_simps)


section \<open>The layout of the node array\<close>

text \<open>
  C3, as the claim states it, fails: \<open>MapBlock_GetNode\<close> does not read the ID low byte of
  a voxel from a second plane of 4096 bytes. In the block whose node data is zero except
  for the byte 7 at position 1, the code reads the ID 7 at the voxel \<open>(0, 0, 0)\<close>, where
  the layout in four planes gives the ID 0.
\<close>

theorem C3_four_planes_counterexample:
  "MapBlock_GetNode \<lparr>mappings = Map.empty, nodeData = (replicate 16384 0)[1 := 7]\<rparr> 0 0 0
     = Inr \<lparr>ID = 7, Param1 = 0, Param2 = 0\<rparr> \<and>
   GetNode_spec_planes \<lparr>mappings = Map.empty, nodeData = (replicate 16384 0)[1 := 7]\<rparr> 0 0 0
     = Inr \<lparr>ID = 0, Param1 = 0, Param2 = 0\<rparr> \<and>
   MapBlock_GetNode \<lparr>mappings = Map.empty, nodeData = (replicate 16384 0)[1 := 7]\<rparr> 0 0 0
     \<noteq> GetNode_spec_planes \<lparr>mappings = Map.empty, nodeData = (replicate 16384 0)[1 := 7]\<rparr> 0 0 0"
proof -
  let ?B = "\<lparr>mappings = Map.empty, nodeData = (replicate 16384 0)[1 := 7]\<rparr>"
  have idx: "add64 (add64 (mul64 (mul64 0 MapBlockSize) MapBlockSize) (mul64 0 MapBlockSize)) 0 = 0"
    by (simp add: MapBlockSize_def int64_simps)
  have g: "MapBlock_GetNode ?B 0 0 0 = Inr \<lparr>ID = 7, Param1 = 0, Param2 = 0\<rparr>"
    using MapBlock_GetNode_flat [of ?B 0 0 0 0] idx by simp
  have p: "GetNode_spec_planes ?B 0 0 0 = Inr \<lparr>ID = 0, Param1 = 0, Param2 = 0\<rparr>"
    by (simp add: GetNode_spec_planes_def index_slice_def MapBlockVolume_def MapBlockSize_def)
  show ?thesis using g p by simp
qed

text \<open>
  C3, amended: the flat node array is laid out as the 4096 node IDs, each as two bytes
  with the high byte first, then all 4096 param1 bytes, then all 4096 param2 bytes. For
  every list of 4096 nodes written in this layout and every local coordinate in
  \<open>[0, 16)\<close> on each axis, \<open>MapBlock_GetNode\<close> returns the node at the flat index
  \<open>z * 256 + y * 16 + x\<close> of the list.
\<close>

theorem C3_layout_ids_then_param_planes:
  assumes "length ns = 4096"
    and "0 \<le> x" "x < 16" "0 \<le> y" "y < 16" "0 \<le> z" "z < 16"
  shows "MapBlock_GetNode \<lparr>mappings = m, nodeData = encodeNodes ns\<rparr> x y z
         = Inr (ns ! nat (z * 256 + y * 16 + x))"
proof -
  let ?i = "z * 256 + y * 16 + x"
  let ?B = "\<lparr>mappings = m, nodeData = encodeNodes ns\<rparr>"
  have i: "0 \<le> ?i" "?i < 4096" using assms by simp_all
  have n: "nat ?i < length ns" using assms i by simp
  have e1: "nat (2 * ?i) = 2 * nat ?i" using i by simp
  have e2: "nat (2 * ?i + 1) = 2 * nat ?i + 1" using i by simp
  have e3: "nat (2 * 4096 + ?i) = 2 * length ns + nat ?i" using i assms(1) by simp
  have e4: "nat (3 * 4096 + ?i) = 3 * length ns + nat ?i" using i assms(1) by simp
  have "MapBlock_GetNode ?B x y z =
     Inr \<lparr>ID = push_bit 8 (ucast (nodeData ?B ! nat (2 * ?i))) OR ucast (nodeData ?B ! nat (2 * ?i + 1)),
          Param1 = nodeData ?B ! nat (2 * 4096 + ?i),
          Param2 = nodeData ?B ! nat (3 * 4096 + ?i)\<rparr>"
    using assms i by (intro MapBlock_GetNode_flat flat_index_wrap) (simp_all add: length_encodeNodes)
  also have "\<dots> = Inr (ns ! nat ?i)"
    unfolding e1 e2 e3 e4 using encodeNodes_nth [OF n] by (simp add: cat_hi_lo)
  finally show ?thesis .
qed

text \<open>
  Witness for C3, amended: 4096 nodes whose ID is their flat index, with param1 3 and
  param2 4; the voxel \<open>(1, 2, 3)\<close> has the flat index 801.
\<close>

theorem C3_layout_ids_then_param_planes_witness:
  "length (map (\<lambda>i. \<lparr>ID = of_nat i, Param1 = 3, Param2 = 4\<rparr>) [0..<4096]) = 4096 \<and>
   MapBlock_GetNode \<lparr>mappings = Map.empty,
       nodeData = encodeNodes (map (\<lambda>i. \<lparr>ID = of_nat i, Param1 = 3, Param2 = 4\<rparr>) [0..<4096])\<rparr> 1 2 3
     = Inr \<lparr>ID = 801, Param1 = 3, Param2 = 4\<rparr>"
  using C3_layout_ids_then_param_planes
    [of "map (\<lambda>i. \<lparr>ID = of_nat i, Param1 = 3, Param2 = 4\<rparr>) [0..<4096]" 1 2 3 Map.empty]
  by simp

text \<open>
  C4: in a block with 16384 bytes of node data, for every local coordinate in
  \<open>[0, MapBlockSize)\<close> on each axis, \<open>MapBlock_GetNode\<close> uses the flat index
  \<open>z * MapBlockSize\<^sup>2 + y * MapBlockSize + x\<close> and assembles the ID as the byte at twice the
  index shifted left by 8, or-ed with the byte behind it; the local position
  \<open>(0, 0, 1)\<close> has the flat index 256, and its ID is made of the bytes at
  \<open>2 * 256\<close> and \<open>2 * 256 + 1\<close>.
\<close>

theorem C4_flat_index_and_id:
  assumes "length (nodeData b) = 16384"
  shows "(\<forall>x y z. 0 \<le> x \<and> x < MapBlockSize \<and> 0 \<le> y \<and> y < MapBlockSize \<and>
                  0 \<le> z \<and> z < MapBlockSize \<longrightarrow>
            MapBlock_GetNode b x y z =
              (let i = z * MapBlockSize\<^sup>2 + y * MapBlockSize + x
               in Inr \<lparr>ID = push_bit 8 (ucast (nodeData b ! nat (2 * i)))
                               OR ucast (nodeData b ! nat (2 * i + 1)),
                       Param1 = nodeData b ! nat (2 * 4096 + i),
                       Param2 = nodeData b ! nat (3 * 4096 + i)\<rparr>)) \<and>
         (1::int) * MapBlockSize\<^sup>2 + 0 * MapBlockSize + 0 = 256 \<and>
         MapBlock_GetNode b 0 0 1 =
           Inr \<lparr>ID = push_bit 8 (ucast (nodeData b ! (2 * 256))) OR ucast (nodeData b ! (2 * 256 + 1)),
                Param1 = nodeData b ! (2 * 4096 + 256),
                Param2 = nodeData b ! (3 * 4096 + 256)\<rparr>"
proof (intro conjI allI impI)
  fix x y z :: int
  assume r: "0 \<le> x \<and> x < MapBlockSize \<and> 0 \<le> y \<and> y < MapBlockSize \<and> 0 \<le> z \<and> z < MapBlockSize"
  then have r': "0 \<le> x" "x < 16" "0 \<le> y" "y < 16" "0 \<le> z" "z < 16"
    by (simp_all add: MapBlockSize_def)
  have "MapBlock_GetNode b x y z =
     Inr \<lparr>ID = push_bit 8 (ucast (nodeData b ! nat (2 * (z * 256 + y * 16 + x))))
                OR ucast (nodeData b ! nat (2 * (z * 256 + y * 16 + x) + 1)),
          Param1 = nodeData b ! nat (2 * 4096 + (z * 256 + y * 16 + x)),
          Param2 = nodeData b ! nat (3 * 4096 + (z * 256 + y * 16 + x))\<rparr>"
    using assms r' by (intro MapBlock_GetNode_flat flat_index_wrap) simp_all
  then show "MapBlock_GetNode b x y z =
              (let i = z * MapBlockSize\<^sup>2 + y * MapBlockSize + x
               in Inr \<lparr>ID = push_bit 8 (ucast (nodeData b ! nat (2 * i)))
                               OR ucast (nodeData b ! nat (2 * i + 1)),
                       Param1 = nodeData b ! nat (2 * 4096 + i),
                       Param2 = nodeData b ! nat (3 * 4096 + i)\<rparr>)"
    by (simp add: MapBlockSize_def Let_def)
next
  show "(1::int) * MapBlockSize\<^sup>2 + 0 * MapBlockSize + 0 = 256"
    by (simp add: MapBlockSize_def)
next
  have "MapBlock_GetNode b 0 0 1 =
     Inr \<lparr>ID = push_bit 8 (ucast (nodeData b ! nat (2 * (1 * 256 + 0 * 16 + 0))))
                OR ucast (nodeData b ! nat (2 * (1 * 256 + 0 * 16 + 0) + 1)),
          Param1 = nodeData b ! nat (2 * 4096 + (1 * 256 + 0 * 16 + 0)),
          Param2 = nodeData b ! nat (3 * 4096 + (1 * 256 + 0 * 16 + 0))\<rparr>"
    using assms by (intro MapBlock_GetNode_flat flat_index_wrap) simp_all
  then show "MapBlock_GetNode b 0 0 1 =
           Inr \<lparr>ID = push_bit 8 (ucast (nodeData b ! (2 * 256))) OR ucast (nodeData b ! (2 * 256 + 1)),
                Param1 = nodeData b ! (2 * 4096 + 256),
                Param2 = nodeData b ! (3 * 4096 + 256)\<rparr>"
    by simp
qed

text \<open>
  Witness for C4: node data that is zero except for the bytes 1 and 2 at the positions
  512 and 513; the voxel \<open>(0, 0, 1)\<close> has the ID \<open>1 * 256 + 2\<close>.
\<close>

theorem C4_flat_index_and_id_witness:
  "length (nodeData \<lparr>mappings = Map.empty, nodeData = (replicate 16384 0)[512 := 1, 513 := 2]\<rparr>)
     = 16384 \<and>
   MapBlock_GetNode \<lparr>mappings = Map.empty, nodeData = (replicate 16384 0)[512 := 1, 513 := 2]\<rparr> 0 0 1
     = Inr \<lparr>ID = 258, Param1 = 0, Param2 = 0\<rparr>"
proof -
  let ?B = "\<lparr>mappings = Map.empty, nodeData = (replicate 16384 0)[512 := 1, 513 := 2]\<rparr>"
  have len: "length (nodeData ?B) = 16384" by simp
  from C4_flat_index_and_id [OF len, THEN conjunct1, rule_format, of 0 0 1]
  show ?thesis by (simp add: MapBlockSize_def Let_def)
qed


section \<open>Decoding\<close>

text \<open>
  C5: for every input whose first byte is not 29, \<open>DecodeMapBlock\<close> returns the error of
  the unsupported version and no block, whatever the decompressor would make of the rest.
\<close>

theorem C5_version_guard:
  "v \<noteq> 29 \<Longrightarrow> DecodeMapBlock zstd (v # rest) = Inl (UnsupportedVersion v)"
  by (simp add: DecodeMapBlock_def readU8_def ReadFull_def)

text \<open>Witness for C5: version 28 in front of a payload that would decode.\<close>

theorem C5_version_guard_witness:
  "(28::byte) \<noteq> 29 \<and>
   DecodeMapBlock (\<lambda>r. Inr emptyPayload) [28, 1, 2] = Inl (UnsupportedVersion 28)"
  using C5_version_guard [of 28 "\<lambda>r. Inr emptyPayload" "[1, 2]"] by simp

text \<open>
  C7: when the mapping table of a well-formed block holds the same ID twice, decoding
  succeeds and \<open>ResolveName\<close> on that ID returns the name that was read last. The payload
  is any header of 8 bytes, the count, the entries \<open>es\<close>, 2 bytes, the node data and
  whatever follows; \<open>(k, n2)\<close> is the last entry of \<open>es\<close> with the ID \<open>k\<close>, behind an
  earlier entry \<open>(k, n1)\<close>.
\<close>

theorem C7_duplicate_id_last_name_wins:
  assumes "zstd rest =
      Inr (hdr @ putU16 (of_nat (length es)) @ concat (map putMapping es) @ skip @ nd @ trailing)"
    and "length hdr = 8" and "length skip = 2" and "length nd = 16384"
    and "length es < 65536" and "\<forall>e \<in> set es. length (snd e) < 65536"
    and "es = pre @ (k, n1) # mid @ (k, n2) # post" and "k \<notin> fst ` set post"
  shows "\<exists>b. DecodeMapBlock zstd (29 # rest) = Inr b \<and> ResolveName b k = n2"
proof -
  have "DecodeMapBlock zstd (29 # rest) = Inr \<lparr>mappings = map_of (rev es), nodeData = nd\<rparr>"
    using assms(1-6) by (rule DecodeMapBlock_encoded)
  moreover have "map_of (rev es) k = Some n2"
    unfolding assms(7) using assms(8) by (rule map_of_rev_last)
  ultimately show ?thesis by (simp add: ResolveName_def)
qed

text \<open>
  Witness for C7: the sample payload maps the ID 5 to \<open>a\<close> and then to \<open>b\<close>; the decoded
  block resolves 5 to \<open>b\<close>.
\<close>

theorem C7_duplicate_id_last_name_wins_witness:
  "\<exists>b. DecodeMapBlock (\<lambda>r. Inr samplePayload) [29] = Inr b \<and> ResolveName b 5 = ''b''"
proof -
  have p: "(\<lambda>r. Inr samplePayload) [] =
    Inr (replicate 8 0 @ putU16 (of_nat (length [(5::uint16, ''a''), (5, ''b'')])) @
      concat (map putMapping [(5, ''a''), (5, ''b'')]) @ [0, 0] @ replicate 16384 0 @ [])"
    by (simp only: samplePayload_put)
  have es: "[(5::uint16, ''a''), (5, ''b'')] = [] @ (5, ''a'') # [] @ (5, ''b'') # []"
    by simp
  show ?thesis
    by (rule C7_duplicate_id_last_name_wins
          [where zstd = "\<lambda>r. Inr samplePayload" and rest = "[]", OF p _ _ _ _ _ es])
       simp_all
qed

text \<open>
  C10: every block that \<open>DecodeMapBlock\<close> returns has node data of exactly
  \<open>MapBlockVolume * NodeSizeInBytes = 16384\<close> bytes, so for every local coordinate in
  \<open>[0, 16)\<close> on each axis the four accesses of \<open>MapBlock_GetNode\<close>, at \<open>2 * index\<close>,
  \<open>2 * index + 1\<close>, \<open>2 * 4096 + index\<close> and \<open>3 * 4096 + index\<close>, are within bounds and
  \<open>MapBlock_GetNode\<close> returns a node.
\<close>

theorem C10_decoded_block_accesses_in_bounds:
  assumes "DecodeMapBlock zstd data = Inr b"
  shows "int (length (nodeData b)) = MapBlockVolume * NodeSizeInBytes \<and>
         length (nodeData b) = 16384 \<and>
         (\<forall>x y z. 0 \<le> x \<and> x < 16 \<and> 0 \<le> y \<and> y < 16 \<and> 0 \<le> z \<and> z < 16 \<longrightarrow>
            (let index = z * MapBlockSize * MapBlockSize + y * MapBlockSize + x
             in (\<exists>idHi idLo param1 param2.
                   index_slice (nodeData b) (2 * index) = Inr idHi \<and>
                   index_slice (nodeData b) (2 * index + 1) = Inr idLo \<and>
                   index_slice (nodeData b) (2 * 4096 + index) = Inr param1 \<and>
                   index_slice (nodeData b) (3 * 4096 + index) = Inr param2 \<and>
                   MapBlock_GetNode b x y z =
                     Inr \<lparr>ID = push_bit 8 (ucast idHi) OR ucast idLo,
                          Param1 = param1, Param2 = param2\<rparr>)))"
proof -
  have len: "length (nodeData b) = 16384"
    using assms by (rule DecodeMapBlock_length)
  have acc: "\<exists>idHi idLo param1 param2.
                   index_slice (nodeData b) (2 * index) = Inr idHi \<and>
                   index_slice (nodeData b) (2 * index + 1) = Inr idLo \<and>
                   index_slice (nodeData b) (2 * 4096 + index) = Inr param1 \<and>
                   index_slice (nodeData b) (3 * 4096 + index) = Inr param2 \<and>
                   MapBlock_GetNode b x y z =
                     Inr \<lparr>ID = push_bit 8 (ucast idHi) OR ucast idLo,
                          Param1 = param1, Param2 = param2\<rparr>"
    if r: "0 \<le> x" "x < 16" "0 \<le> y" "y < 16" "0 \<le> z" "z < 16"
      and index: "index = z * MapBlockSize * MapBlockSize + y * MapBlockSize + x"
    for x y z index :: int
  proof -
    have i: "index = z * 256 + y * 16 + x" using index by (simp add: MapBlockSize_def)
    have b: "0 \<le> index" "index < 4096" using r i by simp_all
    have g: "MapBlock_GetNode b x y z =
       Inr \<lparr>ID = push_bit 8 (ucast (nodeData b ! nat (2 * index)))
                  OR ucast (nodeData b ! nat (2 * index + 1)),
            Param1 = nodeData b ! nat (2 * 4096 + index),
            Param2 = nodeData b ! nat (3 * 4096 + index)\<rparr>"
      using len b r unfolding i by (intro MapBlock_GetNode_flat flat_index_wrap) simp_all
    show ?thesis using len b g by (simp add: index_slice_def)
  qed
  show ?thesis
    using len acc by (simp add: MapBlockVolume_def MapBlockSize_def NodeSizeInBytes_def Let_def)
qed

text \<open>
  Witness for C10: the payload with the empty table decodes, and the last voxel,
  \<open>(15, 15, 15)\<close>, whose param2 is the last byte of the node data, is read.
\<close>

theorem C10_decoded_block_accesses_in_bounds_witness:
  "DecodeMapBlock (\<lambda>r. Inr emptyPayload) [29] =
     Inr \<lparr>mappings = Map.empty, nodeData = replicate 16384 0\<rparr> \<and>
   length (nodeData \<lparr>mappings = Map.empty, nodeData = replicate 16384 (0::byte)\<rparr>) = 16384 \<and>
   index_slice (replicate 16384 (0::byte)) (3 * 4096 + 4095) = Inr 0 \<and>
   MapBlock_GetNode \<lparr>mappings = Map.empty, nodeData = replicate 16384 0\<rparr> 15 15 15
     = Inr \<lparr>ID = 0, Param1 = 0, Param2 = 0\<rparr>"
proof -
  have r: "(0::int) \<le> 15 \<and> (15::int) < 16 \<and> (0::int) \<le> 15 \<and> (15::int) < 16 \<and>
      (0::int) \<le> 15 \<and> (15::int) < 16"
    by simp
  from C10_decoded_block_accesses_in_bounds
    [OF decode_emptyPayload, THEN conjunct2, THEN conjunct2, rule_format, OF r]
  show ?thesis
    using decode_emptyPayload by (auto simp add: Let_def MapBlockSize_def index_slice_def)
qed


section \<open>Name lookup and absent cells\<close>

text \<open>
  C9: \<open>ResolveName\<close> is a total function of the block and the 16-bit ID: it returns the
  mapped name when the mapping table holds the ID and the empty string when it does not.
\<close>

theorem C9_ResolveName_total:
  "(\<forall>name. mappings b k = Some name \<longrightarrow> ResolveName b k = name) \<and>
   (mappings b k = None \<longrightarrow> ResolveName b k = '''')"
  by (simp add: ResolveName_def)

text \<open>Witness for C9: a table with the single ID 5, asked for 5 and for 6.\<close>

theorem C9_ResolveName_total_witness:
  "[5 \<mapsto> ''default:stone''] (5::uint16) = Some ''default:stone'' \<and>
   ResolveName \<lparr>mappings = [5 \<mapsto> ''default:stone''], nodeData = []\<rparr> 5 = ''default:stone'' \<and>
   [5 \<mapsto> ''default:stone''] (6::uint16) = None \<and>
   ResolveName \<lparr>mappings = [5 \<mapsto> ''default:stone''], nodeData = []\<rparr> 6 = ''''"
  using C9_ResolveName_total [of "\<lparr>mappings = [5 \<mapsto> ''default:stone''], nodeData = []\<rparr>" 5]
        C9_ResolveName_total [of "\<lparr>mappings = [5 \<mapsto> ''default:stone''], nodeData = []\<rparr>" 6]
  by simp

text \<open>
  C6: for every node position whose cell is resolved and holds no block, \<open>GetNode\<close>
  returns the sentinel \<open>(air, 0, 0)\<close> and \<open>GetParam1\<close> returns 0; neither fails.
\<close>

theorem C6_absent_cell_is_air:
  "getBlockByNodePos b pos = Inr None \<Longrightarrow>
   GetNode b pos = Inr (''air'', 0, 0) \<and> GetParam1 b pos = Inr 0"
  by (simp add: GetNode_def GetParam1_def)

text \<open>Witness for C6: the position \<open>(20, 5, 5)\<close> in the empty neighborhood.\<close>

theorem C6_absent_cell_is_air_witness:
  "getBlockByNodePos emptyNeighborhood \<lparr>X = 20, Y = 5, Z = 5\<rparr> = Inr None \<and>
   GetNode emptyNeighborhood \<lparr>X = 20, Y = 5, Z = 5\<rparr> = Inr (''air'', 0, 0) \<and>
   GetParam1 emptyNeighborhood \<lparr>X = 20, Y = 5, Z = 5\<rparr> = Inr 0"
proof -
  have h: "getBlockByNodePos emptyNeighborhood \<lparr>X = 20, Y = 5, Z = 5\<rparr> = Inr None"
    by (simp add: getBlockByNodePos_def emptyNeighborhood_def BlockSize_def neighborhoodCenter_def
        int64_simps)
  show ?thesis using h C6_absent_cell_is_air [OF h] by simp
qed


section \<open>Fetching a block into the neighborhood\<close>

text \<open>
  C8: for every offset and world origin, when the world accessor fails for the block at
  \<open>worldPos + posOffset\<close>, by the backend or by the decoder, \<open>FetchBlock\<close> returns the
  neighborhood as it was and no error. When the accessor succeeds and the offset is in
  \<open>{-1, 0, 1}\<close> on each axis, \<open>FetchBlock\<close> stores the decoded block in the cell of the
  offset shifted by one on each axis, at the index that \<open>SetBlock\<close> computes, and
  changes no other cell.
\<close>

theorem C8_FetchBlock_absorbs_failure:
  "(GetBlock zstd w (X (Add worldPos posOffset)) (Y (Add worldPos posOffset))
        (Z (Add worldPos posOffset)) = Inl err \<longrightarrow>
    FetchBlock zstd w b posOffset worldPos = Inr b) \<and>
   (GetBlock zstd w (X (Add worldPos posOffset)) (Y (Add worldPos posOffset))
        (Z (Add worldPos posOffset)) = Inr block \<and>
    - 1 \<le> X posOffset \<and> X posOffset \<le> 1 \<and>
    - 1 \<le> Y posOffset \<and> Y posOffset \<le> 1 \<and>
    - 1 \<le> Z posOffset \<and> Z posOffset \<le> 1 \<longrightarrow>
    FetchBlock zstd w b posOffset worldPos =
      Inr (b\<lparr>blocks := (blocks b)
              [nat ((X posOffset + 1) * 9 + (Y posOffset + 1) * 3 + (Z posOffset + 1)) := Some block]\<rparr>))"
proof (intro conjI impI)
  assume "GetBlock zstd w (X (Add worldPos posOffset)) (Y (Add worldPos posOffset))
        (Z (Add worldPos posOffset)) = Inl err"
  then show "FetchBlock zstd w b posOffset worldPos = Inr b"
    by (simp add: FetchBlock_def Let_def)
next
  assume a: "GetBlock zstd w (X (Add worldPos posOffset)) (Y (Add worldPos posOffset))
        (Z (Add worldPos posOffset)) = Inr block \<and>
    - 1 \<le> X posOffset \<and> X posOffset \<le> 1 \<and>
    - 1 \<le> Y posOffset \<and> Y posOffset \<le> 1 \<and>
    - 1 \<le> Z posOffset \<and> Z posOffset \<le> 1"
  let ?i = "(X posOffset + 1) * 9 + (Y posOffset + 1) * 3 + (Z posOffset + 1)"
  have c: "X (Add neighborhoodCenter posOffset) = X posOffset + 1"
    "Y (Add neighborhoodCenter posOffset) = Y posOffset + 1"
    "Z (Add neighborhoodCenter posOffset) = Z posOffset + 1"
    using a by (simp_all add: Add_def neighborhoodCenter_def add64_def wrap64_id)
  have m: "mul64 (X posOffset + 1) 9 = (X posOffset + 1) * 9"
    "mul64 (Y posOffset + 1) 3 = (Y posOffset + 1) * 3"
    using a by (simp_all add: mul64_def wrap64_id)
  have s1: "add64 ((X posOffset + 1) * 9) ((Y posOffset + 1) * 3)
      = (X posOffset + 1) * 9 + (Y posOffset + 1) * 3"
    using a by (simp add: add64_def wrap64_id)
  have s2: "add64 ((X posOffset + 1) * 9 + (Y posOffset + 1) * 3) (Z posOffset + 1) = ?i"
    using a by (simp add: add64_def wrap64_id)
  have r: "0 \<le> ?i \<and> ?i < 27"
    using a by simp
  have "SetBlock b (Add neighborhoodCenter posOffset) (Some block) =
      Inr (b\<lparr>blocks := (blocks b)[nat ?i := Some block]\<rparr>)"
    by (simp only: SetBlock_def Let_def c m s1 s2 r simp_thms if_True)
  then show "FetchBlock zstd w b posOffset worldPos =
      Inr (b\<lparr>blocks := (blocks b)[nat ?i := Some block]\<rparr>)"
    using a by (simp add: FetchBlock_def Let_def)
qed

text \<open>
  Witness for C8, in the sample world with the origin \<open>(0, 0, 0)\<close>: the backend fails
  for the offset \<open>(-1, 0, 0)\<close>, the decoder fails for the offset \<open>(1, 0, 0)\<close>, and the
  block of the offset \<open>(0, 0, 0)\<close> is stored in cell 13.
\<close>

theorem C8_FetchBlock_absorbs_failure_witness:
  "GetBlock (\<lambda>r. Inr emptyPayload) sampleWorld
      (X (Add \<lparr>X = 0, Y = 0, Z = 0\<rparr> \<lparr>X = - 1, Y = 0, Z = 0\<rparr>))
      (Y (Add \<lparr>X = 0, Y = 0, Z = 0\<rparr> \<lparr>X = - 1, Y = 0, Z = 0\<rparr>))
      (Z (Add \<lparr>X = 0, Y = 0, Z = 0\<rparr> \<lparr>X = - 1, Y = 0, Z = 0\<rparr>)) = Inl BackendError \<and>
   FetchBlock (\<lambda>r. Inr emptyPayload) sampleWorld emptyNeighborhood \<lparr>X = - 1, Y = 0, Z = 0\<rparr>
      \<lparr>X = 0, Y = 0, Z = 0\<rparr> = Inr emptyNeighborhood \<and>
   GetBlock (\<lambda>r. Inr emptyPayload) sampleWorld
      (X (Add \<lparr>X = 0, Y = 0, Z = 0\<rparr> \<lparr>X = 1, Y = 0, Z = 0\<rparr>))
      (Y (Add \<lparr>X = 0, Y = 0, Z = 0\<rparr> \<lparr>X = 1, Y = 0, Z = 0\<rparr>))
      (Z (Add \<lparr>X = 0, Y = 0, Z = 0\<rparr> \<lparr>X = 1, Y = 0, Z = 0\<rparr>)) = Inl (UnsupportedVersion 28) \<and>
   FetchBlock (\<lambda>r. Inr emptyPayload) sampleWorld emptyNeighborhood \<lparr>X = 1, Y = 0, Z = 0\<rparr>
      \<lparr>X = 0, Y = 0, Z = 0\<rparr> = Inr emptyNeighborhood \<and>
   GetBlock (\<lambda>r. Inr emptyPayload) sampleWorld
      (X (Add \<lparr>X = 0, Y = 0, Z = 0\<rparr> \<lparr>X = 0, Y = 0, Z = 0\<rparr>))
      (Y (Add \<lparr>X = 0, Y = 0, Z = 0\<rparr> \<lparr>X = 0, Y = 0, Z = 0\<rparr>))
      (Z (Add \<lparr>X = 0, Y = 0, Z = 0\<rparr> \<lparr>X = 0, Y = 0, Z = 0\<rparr>))
      = Inr \<lparr>mappings = Map.empty, nodeData = replicate 16384 0\<rparr> \<and>
   FetchBlock (\<lambda>r. Inr emptyPayload) sampleWorld emptyNeighborhood \<lparr>X = 0, Y = 0, Z = 0\<rparr>
      \<lparr>X = 0, Y = 0, Z = 0\<rparr>
      = Inr \<lparr>blocks = (replicate 27 None)
               [13 := Some \<lparr>mappings = Map.empty, nodeData = replicate 16384 0\<rparr>]\<rparr>"
proof -
  let ?z = "\<lambda>r::byte list. (Inr emptyPayload :: error + byte list)"
  let ?o = "\<lparr>X = 0, Y = 0, Z = 0\<rparr>"
  let ?W = "\<lparr>X = - 1, Y = 0, Z = 0\<rparr>"
  let ?E = "\<lparr>X = 1, Y = 0, Z = 0\<rparr>"
  let ?B = "\<lparr>mappings = Map.empty, nodeData = replicate 16384 (0::byte)\<rparr>"
  have aW: "Add ?o ?W = ?W" and aE: "Add ?o ?E = ?E" and aO: "Add ?o ?o = ?o"
    by (simp_all add: Add_def add64_def wrap64_id)
  have gW: "GetBlock ?z sampleWorld (X (Add ?o ?W)) (Y (Add ?o ?W)) (Z (Add ?o ?W))
      = Inl BackendError"
    unfolding aW by (simp add: GetBlock_def sampleWorld_def)
  have gE: "GetBlock ?z sampleWorld (X (Add ?o ?E)) (Y (Add ?o ?E)) (Z (Add ?o ?E))
      = Inl (UnsupportedVersion 28)"
    unfolding aE
    by (simp add: GetBlock_def sampleWorld_def DecodeMapBlock_def readU8_def ReadFull_def)
  have gO: "GetBlock ?z sampleWorld (X (Add ?o ?o)) (Y (Add ?o ?o)) (Z (Add ?o ?o)) = Inr ?B"
    unfolding aO by (simp add: GetBlock_def sampleWorld_def decode_emptyPayload)
  have fW: "FetchBlock ?z sampleWorld emptyNeighborhood ?W ?o = Inr emptyNeighborhood"
    using C8_FetchBlock_absorbs_failure [THEN conjunct1, rule_format, OF gW] .
  have fE: "FetchBlock ?z sampleWorld emptyNeighborhood ?E ?o = Inr emptyNeighborhood"
    using C8_FetchBlock_absorbs_failure [THEN conjunct1, rule_format, OF gE] .
  have "FetchBlock ?z sampleWorld emptyNeighborhood ?o ?o =
      Inr (emptyNeighborhood\<lparr>blocks := (blocks emptyNeighborhood)
              [nat ((X ?o + 1) * 9 + (Y ?o + 1) * 3 + (Z ?o + 1)) := Some ?B]\<rparr>)"
    using gO by (intro C8_FetchBlock_absorbs_failure [THEN conjunct2, rule_format]) simp
  then have fO: "FetchBlock ?z sampleWorld emptyNeighborhood ?o ?o
      = Inr \<lparr>blocks = (replicate 27 None)[13 := Some ?B]\<rparr>"
    by (simp add: emptyNeighborhood_def)
  show ?thesis
    using gW gE gO fW fE fO by (intro conjI)
qed

end
